theory Spec2Isabelle
  imports Complex_Main "HOL-Library.AList"
begin

section \<open>Python values and exceptions\<close>

text \<open>
  The values that \<^verbatim>\<open>json.loads\<close> produces. A JSON object is a Python dict; it is kept
  as an association list that is read through \<open>map_of\<close>. Python's unicode and byte
  strings are both \<open>string\<close>, one \<open>char\<close> standing for one character.
\<close>

datatype json =
    JNull
  | JBool bool
  | JInt int
  | JFloat real
  | JStr string
  | JArr "json list"
  | JObj "(string \<times> json) list"

text \<open>
  The exceptions that the modelled code raises or lets through. \<open>FileNotFoundError\<close>
  carries path, revision, base commit id and detail; \<open>HostingServiceError\<close> carries its
  message and \<open>http_code\<close>; \<open>HTTPError\<close> carries the status code and the body
  that \<^verbatim>\<open>e.read()\<close> gives.
\<close>

datatype error =
    AttributeError
  | TypeError
  | KeyError string
  | IndexError
  | ValueError string
  | URLError string
  | HTTPError nat string
  | HostingServiceError string "nat option"
  | AuthorizationError string
  | InvalidPlanError string
  | FileNotFoundError string "string option" "string option" "string option"
  | OtherError string

text \<open>Truth value of a Python object in \<^verbatim>\<open>if x:\<close>.\<close>

fun truthy :: "json \<Rightarrow> bool" where
  "truthy JNull = False"
| "truthy (JBool b) = b"
| "truthy (JInt i) = (i \<noteq> 0)"
| "truthy (JFloat r) = (r \<noteq> 0)"
| "truthy (JStr s) = (s \<noteq> [])"
| "truthy (JArr xs) = (xs \<noteq> [])"
| "truthy (JObj kvs) = (kvs \<noteq> [])"

text \<open>\<^verbatim>\<open>d.get(k, default)\<close> on a dict, and what \<^verbatim>\<open>x.get(k, default)\<close> does on any value:
  only a dict has the attribute.\<close>

definition dict_get :: "(string \<times> json) list \<Rightarrow> string \<Rightarrow> json \<Rightarrow> json" where
  "dict_get kvs k d = (case map_of kvs k of None \<Rightarrow> d | Some v \<Rightarrow> v)"

fun py_get :: "json \<Rightarrow> string \<Rightarrow> json \<Rightarrow> error + json" where
  "py_get (JObj kvs) k d = Inr (dict_get kvs k d)"
| "py_get _ k d = Inl AttributeError"

text \<open>\<^verbatim>\<open>x[k]\<close> with a string key: a dict looks the key up, a list or a string refuses the
  index type, the other values have no item access.\<close>

fun py_getitem :: "json \<Rightarrow> string \<Rightarrow> error + json" where
  "py_getitem (JObj kvs) k = (case map_of kvs k of None \<Rightarrow> Inl (KeyError k) | Some v \<Rightarrow> Inr v)"
| "py_getitem _ k = Inl TypeError"

text \<open>The items a \<^verbatim>\<open>for\<close> loop draws from a value: the elements of a list, the
  characters of a string, the keys of a dict (each key once); other values are not
  iterable.\<close>

fun py_iter :: "json \<Rightarrow> error + json list" where
  "py_iter (JArr xs) = Inr xs"
| "py_iter (JStr s) = Inr (map (\<lambda>c. JStr [c]) s)"
| "py_iter (JObj kvs) = Inr (map JStr (remdups (map fst kvs)))"
| "py_iter _ = Inl TypeError"

text \<open>\<^verbatim>\<open>x[:7]\<close>: strings and lists are sliced, anything else raises \<^verbatim>\<open>TypeError\<close>
  (\<^verbatim>\<open>None\<close>, numbers and booleans have no item access, a dict cannot hash a slice).\<close>

fun py_slice7 :: "json \<Rightarrow> error + json" where
  "py_slice7 (JStr s) = Inr (JStr (take 7 s))"
| "py_slice7 (JArr xs) = Inr (JArr (take 7 xs))"
| "py_slice7 _ = Inl TypeError"

text \<open>\<^verbatim>\<open>'%s' % x\<close> and \<^verbatim>\<open>six.text_type(x)\<close>: a string is itself; the text of any other
  value is Python's, taken as the parameter \<open>text_repr\<close>.\<close>

fun text_type :: "(json \<Rightarrow> string) \<Rightarrow> json \<Rightarrow> string" where
  "text_type text_repr (JStr s) = s"
| "text_type text_repr v = text_repr v"

text \<open>\<^verbatim>\<open>s.startswith(p)\<close>.\<close>

definition startswith :: "string \<Rightarrow> string \<Rightarrow> bool" where
  "startswith s p = (take (length p) s = p)"


text \<open>
  The library functions that the code calls on text: \<^verbatim>\<open>json.loads\<close> (\<open>Inl\<close> is the
  message of its \<^verbatim>\<open>ValueError\<close>) and the text of a value that is not a string.
\<close>

record py_env =
  json_loads :: "string \<Rightarrow> string + json"
  text_repr :: "json \<Rightarrow> string"

section \<open>Repositories and hosting accounts\<close>

text \<open>The fields of a \<^verbatim>\<open>Repository\<close> that the Bitbucket service reads: the name of its
  SCM tool and its \<^verbatim>\<open>extra_data\<close> dict, which holds the strings of the repository form.\<close>

record repository =
  tool_name :: string
  extra_data :: "(string \<times> string) list"

section \<open>The close-submitted webhook\<close>

text \<open>\<^verbatim>\<open>review_request_id_to_commits_map[rid].append(entry)\<close> on a
  \<^verbatim>\<open>defaultdict(list)\<close>: a missing key starts from the empty list. The key is the
  review request ID, or \<open>None\<close>.\<close>

type_synonym commits_map = "(int option \<times> string list) list"

fun dd_append :: "int option \<Rightarrow> string \<Rightarrow> commits_map \<Rightarrow> commits_map" where
  "dd_append k v [] = [(k, [v])]"
| "dd_append k v ((k', l) # m) =
     (if k = k' then (k', l @ [v]) # m else (k', l) # dd_append k v m)"

text \<open>
  The body of the loop over the commits in \<^verbatim>\<open>_get_review_request_id_to_commits_map\<close>.
  \<^verbatim>\<open>get_review_request_id\<close> belongs to \<^verbatim>\<open>hook_utils\<close>, which is not among the
  sources: it is the parameter \<open>get_rrid\<close>, called with the commit message, the server
  URL, the commit hash and the repository, and giving an ID or \<open>None\<close>.
\<close>

fun commits_loop ::
  "(json \<Rightarrow> string \<Rightarrow> json \<Rightarrow> repository \<Rightarrow> int option) \<Rightarrow> (json \<Rightarrow> string) \<Rightarrow>
   string \<Rightarrow> repository \<Rightarrow> json list \<Rightarrow> commits_map \<Rightarrow> error + commits_map" where
  "commits_loop get_rrid repr server_url repo [] m = Inr m"
| "commits_loop get_rrid repr server_url repo (commit # commits) m =
     (case py_get commit ''raw_node'' JNull of
        Inl e \<Rightarrow> Inl e
      | Inr commit_hash \<Rightarrow>
     (case py_get commit ''message'' JNull of
        Inl e \<Rightarrow> Inl e
      | Inr commit_message \<Rightarrow>
     (case py_get commit ''branch'' JNull of
        Inl e \<Rightarrow> Inl e
      | Inr branch_name \<Rightarrow>
          if truthy branch_name then
            (let review_request_id = get_rrid commit_message server_url commit_hash repo
             in case py_slice7 commit_hash of
                  Inl e \<Rightarrow> Inl e
                | Inr h \<Rightarrow>
                    commits_loop get_rrid repr server_url repo commits
                      (dd_append review_request_id
                         (text_type repr branch_name @ '' ('' @ text_type repr h @ '')'')
                         m))
          else commits_loop get_rrid repr server_url repo commits m)))"

definition get_review_request_id_to_commits_map ::
  "(json \<Rightarrow> string \<Rightarrow> json \<Rightarrow> repository \<Rightarrow> int option) \<Rightarrow> (json \<Rightarrow> string) \<Rightarrow>
   json \<Rightarrow> string \<Rightarrow> repository \<Rightarrow> error + commits_map" where
  "get_review_request_id_to_commits_map get_rrid repr payload server_url repo =
     (case py_get payload ''commits'' (JArr []) of
        Inl e \<Rightarrow> Inl e
      | Inr commits \<Rightarrow>
          (case py_iter commits of
             Inl e \<Rightarrow> Inl e
           | Inr cs \<Rightarrow> commits_loop get_rrid repr server_url repo cs []))"

text \<open>
  The shape of payload on which the function returns: the payload is a dict, the value
  under \<^verbatim>\<open>commits\<close> (an empty list when the key is absent) can be iterated, each of
  its items is a dict, and an item with a true \<^verbatim>\<open>branch\<close> has a \<^verbatim>\<open>raw_node\<close> that
  can be sliced. These definitions describe the input; they are not taken from the code.
\<close>

fun sliceable :: "json \<Rightarrow> bool" where
  "sliceable (JStr s) = True"
| "sliceable (JArr xs) = True"
| "sliceable _ = False"

fun commit_field :: "json \<Rightarrow> string \<Rightarrow> json" where
  "commit_field (JObj kvs) k = dict_get kvs k JNull"
| "commit_field _ k = JNull"

fun has_branch :: "json \<Rightarrow> bool" where
  "has_branch c = truthy (commit_field c ''branch'')"

fun commit_ok :: "json \<Rightarrow> bool" where
  "commit_ok (JObj kvs) =
     (if truthy (dict_get kvs ''branch'' JNull) then sliceable (dict_get kvs ''raw_node'' JNull)
      else True)"
| "commit_ok _ = False"

fun payload_commits :: "json \<Rightarrow> json list option" where
  "payload_commits (JObj kvs) =
     (case py_iter (dict_get kvs ''commits'' (JArr [])) of
        Inl e \<Rightarrow> None
      | Inr cs \<Rightarrow> Some cs)"
| "payload_commits _ = None"

definition payload_ok :: "json \<Rightarrow> bool" where
  "payload_ok payload =
     (case payload_commits payload of None \<Rightarrow> False | Some cs \<Rightarrow> list_all commit_ok cs)"

text \<open>The entry of one commit, \<^verbatim>\<open><branch> (<first 7 characters of the hash>)\<close>, and
  the entries that the commits of a list contribute to the key \<open>k\<close>, in their order.\<close>

fun first7 :: "json \<Rightarrow> json" where
  "first7 (JStr s) = JStr (take 7 s)"
| "first7 (JArr xs) = JArr (take 7 xs)"
| "first7 v = v"

definition commit_entry :: "(json \<Rightarrow> string) \<Rightarrow> json \<Rightarrow> string" where
  "commit_entry repr c =
     text_type repr (commit_field c ''branch'') @ '' ('' @
     text_type repr (first7 (commit_field c ''raw_node'')) @ '')''"

definition commit_key ::
  "(json \<Rightarrow> string \<Rightarrow> json \<Rightarrow> repository \<Rightarrow> int option) \<Rightarrow> string \<Rightarrow> repository \<Rightarrow> json \<Rightarrow>
   int option" where
  "commit_key get_rrid server_url repo c =
     get_rrid (commit_field c ''message'') server_url (commit_field c ''raw_node'') repo"

definition entries_for ::
  "(json \<Rightarrow> string \<Rightarrow> json \<Rightarrow> repository \<Rightarrow> int option) \<Rightarrow> (json \<Rightarrow> string) \<Rightarrow>
   string \<Rightarrow> repository \<Rightarrow> int option \<Rightarrow> json list \<Rightarrow> string list" where
  "entries_for get_rrid repr server_url repo k cs =
     map (commit_entry repr)
       (filter (\<lambda>c. has_branch c \<and> commit_key get_rrid server_url repo c = k) cs)"

subsection \<open>The view\<close>

text \<open>
  The request as the view reads it: \<^verbatim>\<open>request.method\<close> (here \<open>request_method\<close>),
  which \<^verbatim>\<open>require_POST\<close> tests (another method is answered with status 405), and the
  \<^verbatim>\<open>POST\<close> dict. A response is its status code and its body.
\<close>

record http_request =
  request_method :: string
  POST :: "(string \<times> string) list"

record http_response =
  status_code :: nat
  content :: string

definition HttpResponse :: "string \<Rightarrow> http_response" where
  "HttpResponse body = \<lparr>status_code = 200, content = body\<rparr>"

definition HttpResponseBadRequest :: "string \<Rightarrow> http_response" where
  "HttpResponseBadRequest body = \<lparr>status_code = 400, content = body\<rparr>"

definition HttpResponseNotAllowed :: "http_response" where
  "HttpResponseNotAllowed = \<lparr>status_code = 405, content = []\<rparr>"

text \<open>
  What the view does beyond its response: \<open>close_calls\<close> lists the calls of
  \<^verbatim>\<open>close_all_review_requests\<close> with their arguments (the map, the local site name, the
  repository, the hosting service id), \<open>logged\<close> the messages given to
  \<^verbatim>\<open>logging.error\<close>.
\<close>

record hook_state =
  close_calls :: "(commits_map \<times> string option \<times> repository \<times> string) list"
  logged :: "string list"

text \<open>
  The functions that the view calls and that are not among the sources:
  \<^verbatim>\<open>get_repository_for_hook\<close>, \<^verbatim>\<open>get_server_url\<close> and \<^verbatim>\<open>get_review_request_id\<close> of the
  application, each taken as a function that returns.
\<close>

record hook_env = py_env +
  get_repository_for_hook :: "nat \<Rightarrow> string \<Rightarrow> string option \<Rightarrow> string option \<Rightarrow> repository"
  get_server_url :: "http_request \<Rightarrow> string"
  get_review_request_id :: "json \<Rightarrow> string \<Rightarrow> json \<Rightarrow> repository \<Rightarrow> int option"

definition post_receive_hook_close_submitted ::
  "hook_env \<Rightarrow> http_request \<Rightarrow> string option \<Rightarrow> nat \<Rightarrow> string \<Rightarrow> string option \<Rightarrow>
   hook_state \<Rightarrow> (error + http_response) \<times> hook_state" where
  "post_receive_hook_close_submitted E request local_site_name repository_id
       hosting_service_id hooks_uuid st =
     (if request_method request \<noteq> ''POST'' then (Inr HttpResponseNotAllowed, st)
      else
        let repo = get_repository_for_hook E repository_id hosting_service_id
                     local_site_name hooks_uuid
        in case map_of (POST request) ''payload'' of
             None \<Rightarrow> (Inr (HttpResponseBadRequest ''Missing payload''), st)
           | Some text \<Rightarrow>
               (case json_loads E text of
                  Inl msg \<Rightarrow>
                    (Inr (HttpResponseBadRequest ''Invalid payload format''),
                     st\<lparr>logged := logged st @ [''The payload is not in JSON format: '' @ msg]\<rparr>)
                | Inr payload \<Rightarrow>
                    (let server_url = get_server_url E request
                     in case get_review_request_id_to_commits_map (get_review_request_id E)
                               (text_repr E) payload server_url repo of
                          Inl e \<Rightarrow> (Inl e, st)
                        | Inr review_request_id_to_commits \<Rightarrow>
                            (Inr (HttpResponse []),
                             if review_request_id_to_commits \<noteq> []
                             then st\<lparr>close_calls := close_calls st @
                                      [(review_request_id_to_commits, local_site_name, repo,
                                        hosting_service_id)]\<rparr>
                             else st))))"

subsection \<open>Example requests\<close>

definition ex_repo :: repository where
  "ex_repo = \<lparr>tool_name = ''Git'', extra_data = [(''bitbucket_repo_name'', ''proj'')]\<rparr>"

definition ex_get_rrid :: "json \<Rightarrow> string \<Rightarrow> json \<Rightarrow> repository \<Rightarrow> int option" where
  "ex_get_rrid message server_url commit_hash repo =
     (if message = JStr ''Reviewed at /r/12/'' then Some 12 else None)"

definition ex_text_repr :: "json \<Rightarrow> string" where
  "ex_text_repr v = ''?''"

definition ex_payload_text :: string where
  "ex_payload_text = ''{\"commits\": [{\"branch\": \"master\", \"raw_node\": \"0123456789ab\", \"message\": \"Reviewed at /r/12/\"}, {\"raw_node\": \"ffff\"}]}''"

definition ex_json_loads :: "string \<Rightarrow> string + json" where
  "ex_json_loads text =
     (if text = ''[]'' then Inr (JArr [])
      else if text = ''{\"commits\": [{\"branch\": \"master\"}]}''
        then Inr (JObj [(''commits'', JArr [JObj [(''branch'', JStr ''master'')]])])
      else if text = ex_payload_text
        then Inr (JObj [(''commits'',
               JArr [JObj [(''branch'', JStr ''master''), (''raw_node'', JStr ''0123456789ab''),
                           (''message'', JStr ''Reviewed at /r/12/'')],
                     JObj [(''raw_node'', JStr ''ffff'')]])])
      else Inl ''No JSON object could be decoded'')"

definition ex_hook_env :: hook_env where
  "ex_hook_env =
     \<lparr>json_loads = ex_json_loads, text_repr = ex_text_repr,
      get_repository_for_hook = (\<lambda>repository_id hosting_service_id local_site_name hooks_uuid. ex_repo),
      get_server_url = (\<lambda>request. ''https://rb.example.com/''),
      get_review_request_id = ex_get_rrid\<rparr>"

definition ex_hook_state :: hook_state where
  "ex_hook_state = \<lparr>close_calls = [], logged = []\<rparr>"

definition ex_payload_no_hash :: json where
  "ex_payload_no_hash = JObj [(''commits'', JArr [JObj [(''branch'', JStr ''master'')]])]"

definition ex_payload :: json where
  "ex_payload =
     JObj [(''commits'',
       JArr [JObj [(''branch'', JStr ''master''), (''raw_node'', JStr ''0123456789ab''),
                   (''message'', JStr ''Reviewed at /r/12/'')],
             JObj [(''raw_node'', JStr ''ffff'')]])]"

definition ex_request_list :: http_request where
  "ex_request_list = \<lparr>request_method = ''POST'', POST = [(''payload'', ''[]'')]\<rparr>"

definition ex_request_ok :: http_request where
  "ex_request_ok = \<lparr>request_method = ''POST'', POST = [(''payload'', ex_payload_text)]\<rparr>"

definition ex_request_missing :: http_request where
  "ex_request_missing = \<lparr>request_method = ''POST'', POST = [(''other'', ''x'')]\<rparr>"

definition ex_request_invalid :: http_request where
  "ex_request_invalid = \<lparr>request_method = ''POST'', POST = [(''payload'', ''{not json'')]\<rparr>"

definition ex_commits :: "json list" where
  "ex_commits =
     [JObj [(''branch'', JStr ''master''), (''raw_node'', JStr ''0123456789ab''),
            (''message'', JStr ''Reviewed at /r/12/'')],
      JObj [(''raw_node'', JStr ''ffff'')]]"

text \<open>Reading a \<^verbatim>\<open>defaultdict(list)\<close>: the list under a key, empty when the key is absent.\<close>

definition dd_lookup :: "commits_map \<Rightarrow> int option \<Rightarrow> string list" where
  "dd_lookup m k = (case map_of m k of None \<Rightarrow> [] | Some l \<Rightarrow> l)"

section \<open>The Bitbucket hosting service\<close>

subsection \<open>Accounts, commits and branches\<close>

text \<open>The hosting account: its username and its \<^verbatim>\<open>data\<close> dict, where the encrypted
  password is kept under \<^verbatim>\<open>password\<close>.\<close>

record account =
  username :: string
  data :: "(string \<times> string) list"

text \<open>
  \<^verbatim>\<open>Commit\<close> and \<^verbatim>\<open>Branch\<close> of \<^verbatim>\<open>scmtools.core\<close>: objects built from keyword arguments.
  The \<^verbatim>\<open>id\<close> of a commit is \<open>commit_id\<close> here; \<^verbatim>\<open>id\<close>, \<^verbatim>\<open>commit\<close> and \<^verbatim>\<open>default\<close> of
  a branch are \<open>branch_id\<close>, \<open>branch_commit\<close> and \<open>branch_default\<close>. A \<open>parent\<close> or
  \<open>diff\<close> that the code does not give keeps the default of the constructor, \<open>None\<close>
  here. The other fields hold what the API response holds.
\<close>

record commit =
  author_name :: json
  commit_id :: json
  date :: json
  message :: json
  parent :: "json option"
  diff :: "string option"

record branch =
  branch_id :: string
  branch_commit :: json
  branch_default :: bool

text \<open>
  What a call of the service can change or do: the account in memory, the accounts
  written by \<^verbatim>\<open>account.save()\<close>, and the URLs fetched through \<^verbatim>\<open>client.http_get\<close>, each
  in the order of the calls.
\<close>

record world =
  account :: account
  saved :: "account list"
  requests :: "string list"

text \<open>
  What the service calls outside the sources: the HTTP client (URL, username and password;
  it returns the body or raises), \<^verbatim>\<open>quote\<close>, the password encryption, the outcome of
  \<^verbatim>\<open>account.save()\<close> (\<open>None\<close> when it returns), the cache and the cache key of a revision.
\<close>

record svc_env = py_env +
  http_get :: "string \<Rightarrow> string \<Rightarrow> string \<Rightarrow> error + string"
  quote :: "string \<Rightarrow> string"
  encrypt_password :: "string \<Rightarrow> string"
  decrypt_password :: "string \<Rightarrow> string"
  save_raises :: "account \<Rightarrow> error option"
  cache_get :: "string \<Rightarrow> commit option"
  get_commit_cache_key :: "repository \<Rightarrow> string \<Rightarrow> string"

text \<open>\<^verbatim>\<open>d[k]\<close> on a dict of strings.\<close>

definition dict_item :: "(string \<times> string) list \<Rightarrow> string \<Rightarrow> error + string" where
  "dict_item d k = (case map_of d k of None \<Rightarrow> Inl (KeyError k) | Some v \<Rightarrow> Inr v)"

text \<open>\<^verbatim>\<open>k in x\<close> for a string \<open>k\<close>: a key of a dict, an element of a list, a substring of
  a string; the other values are not containers.\<close>

fun contains_str :: "string \<Rightarrow> string \<Rightarrow> bool" where
  "contains_str [] k = (k = [])"
| "contains_str (c # s) k = (startswith (c # s) k \<or> contains_str s k)"

fun str_in :: "string \<Rightarrow> json \<Rightarrow> error + bool" where
  "str_in k (JObj kvs) = Inr (k \<in> set (map fst kvs))"
| "str_in k (JArr xs) = Inr (JStr k \<in> set xs)"
| "str_in k (JStr s) = Inr (contains_str s k)"
| "str_in k _ = Inl TypeError"

text \<open>\<^verbatim>\<open>'%s' % n\<close> for a status code.\<close>

function string_of_nat :: "nat \<Rightarrow> string" where
  "string_of_nat n =
     (if n < 10 then [''0123456789'' ! n]
      else string_of_nat (n div 10) @ [''0123456789'' ! (n mod 10)])"
  by pat_completeness auto
termination
  by (relation "measure (\<lambda>n. n)") auto

subsection \<open>API requests\<close>

definition auth_error_message :: string where
  "auth_error_message =
     ''Invalid Bitbucket username or password. Make sure you are using your Bitbucket username and not e-mail address, and are using an app password if two-factor authentication is enabled.''"

text \<open>\<^verbatim>\<open>_raise_auth_error(message)\<close>: the error it raises, with \<^verbatim>\<open>message or <default>\<close>.\<close>

definition raise_auth_error :: "string option \<Rightarrow> error" where
  "raise_auth_error msg =
     (case msg of
        None \<Rightarrow> AuthorizationError auth_error_message
      | Some s \<Rightarrow> AuthorizationError (if s \<noteq> [] then s else auth_error_message))"

text \<open>
  \<^verbatim>\<open>_check_api_error\<close> always raises; \<open>check_api_error\<close> is the exception it raises for
  an \<^verbatim>\<open>HTTPError\<close> with the given code and body. \<open>api_error_message\<close> is the value of
  \<^verbatim>\<open>message\<close> after the block that reads \<^verbatim>\<open>rsp['error']['message']\<close>; \<open>msg\<close> is
  \<^verbatim>\<open>message\<close> after \<^verbatim>\<open>six.text_type\<close>.
\<close>

definition api_error_message :: "'a py_env_scheme \<Rightarrow> string \<Rightarrow> error + json" where
  "api_error_message E body =
     (let rsp = (case json_loads E body of Inl msg \<Rightarrow> JNull | Inr v \<Rightarrow> v)
      in if truthy rsp then
           (case str_in ''error'' rsp of
              Inl e \<Rightarrow> Inl e
            | Inr False \<Rightarrow> Inr (JStr body)
            | Inr True \<Rightarrow>
                (case py_getitem rsp ''error'' of
                   Inl e \<Rightarrow> Inl e
                 | Inr err \<Rightarrow>
                     (case str_in ''message'' err of
                        Inl e \<Rightarrow> Inl e
                      | Inr False \<Rightarrow> Inr (JStr body)
                      | Inr True \<Rightarrow> py_getitem err ''message'')))
         else Inr (JStr body))"

definition check_api_error :: "'a py_env_scheme \<Rightarrow> nat \<Rightarrow> string \<Rightarrow> error" where
  "check_api_error E code body =
     (case api_error_message E body of
        Inl e \<Rightarrow> e
      | Inr m \<Rightarrow>
          (let msg = (if truthy m then JStr (text_type (text_repr E) m) else m)
           in if code = 401 then
                raise_auth_error
                  (if truthy msg then Some (text_type (text_repr E) msg) else None)
              else if code = 404 then
                (case msg of
                   JStr s \<Rightarrow>
                     if startswith s ''Repository'' then HostingServiceError s (Some code)
                     else FileNotFoundError [] None None None
                 | _ \<Rightarrow> AttributeError)
              else
                HostingServiceError
                  (if truthy msg then text_type (text_repr E) msg
                   else ''Unexpected HTTP '' @ string_of_nat code @
                        '' error when talking to Bitbucket'')
                  (Some code)))"

text \<open>
  \<^verbatim>\<open>_api_get\<close>. The password is read from the account data before the client is called,
  so a missing password raises \<^verbatim>\<open>KeyError\<close> and nothing is fetched. With
  \<^verbatim>\<open>raw_content\<close> the body is returned as it is (\<open>JStr\<close> of it), otherwise it is parsed.
  Only an \<^verbatim>\<open>HTTPError\<close> of the client is handled.
\<close>

definition api_get ::
  "'a svc_env_scheme \<Rightarrow> string \<Rightarrow> bool \<Rightarrow> world \<Rightarrow> (error + json) \<times> world" where
  "api_get E url raw_content w =
     (case dict_item (data (account w)) ''password'' of
        Inl e \<Rightarrow> (Inl e, w)
      | Inr p \<Rightarrow>
          (let w' = w\<lparr>requests := requests w @ [url]\<rparr>
           in case http_get E url (username (account w)) (decrypt_password E p) of
                Inr body \<Rightarrow>
                  if raw_content then (Inr (JStr body), w')
                  else (case json_loads E body of
                          Inl msg \<Rightarrow> (Inl (ValueError msg), w')
                        | Inr v \<Rightarrow> (Inr v, w'))
              | Inl (HTTPError code body) \<Rightarrow> (Inl (check_api_error E code body), w')
              | Inl e \<Rightarrow> (Inl e, w')))"

definition build_api_url :: "string \<Rightarrow> string \<Rightarrow> string" where
  "build_api_url url version = ''https://bitbucket.org/api/'' @ version @ ''/'' @ url"

subsection \<open>Plans, repository names and owners\<close>

definition DEFAULT_PLAN :: string where
  "DEFAULT_PLAN = ''personal''"

definition get_repository_plan :: "repository \<Rightarrow> string" where
  "get_repository_plan repo =
     (case map_of (extra_data repo) ''repository_plan'' of
        None \<Rightarrow> DEFAULT_PLAN
      | Some p \<Rightarrow> if p \<noteq> [] then p else DEFAULT_PLAN)"

definition get_repository_name_raw :: "string \<Rightarrow> (string \<times> string) list \<Rightarrow> error + string" where
  "get_repository_name_raw plan extra =
     (if plan = ''personal'' then dict_item extra ''bitbucket_repo_name''
      else if plan = ''team'' then dict_item extra ''bitbucket_team_repo_name''
      else if plan = ''other-user'' then dict_item extra ''bitbucket_other_user_repo_name''
      else Inl (InvalidPlanError plan))"

definition get_repository_name :: "repository \<Rightarrow> error + string" where
  "get_repository_name repo = get_repository_name_raw (get_repository_plan repo) (extra_data repo)"

definition get_repository_owner_raw ::
  "account \<Rightarrow> string \<Rightarrow> (string \<times> string) list \<Rightarrow> error + string" where
  "get_repository_owner_raw acct plan extra =
     (if plan = ''personal'' then Inr (username acct)
      else if plan = ''team'' then dict_item extra ''bitbucket_team_name''
      else if plan = ''other-user'' then dict_item extra ''bitbucket_other_user_username''
      else Inl (InvalidPlanError plan))"

definition get_repository_owner :: "account \<Rightarrow> repository \<Rightarrow> error + string" where
  "get_repository_owner acct repo =
     get_repository_owner_raw acct (get_repository_plan repo) (extra_data repo)"

definition build_repository_api_url ::
  "account \<Rightarrow> repository \<Rightarrow> string \<Rightarrow> string \<Rightarrow> error + string" where
  "build_repository_api_url acct repo url version =
     (case get_repository_owner acct repo of
        Inl e \<Rightarrow> Inl e
      | Inr owner \<Rightarrow>
          (case get_repository_name repo of
             Inl e \<Rightarrow> Inl e
           | Inr repo_name \<Rightarrow>
               Inr (build_api_url (''repositories/'' @ owner @ ''/'' @ repo_name @ ''/'' @ url)
                      version)))"

subsection \<open>Fetching files\<close>

text \<open>\<^verbatim>\<open>if x:\<close> for a value that is \<^verbatim>\<open>None\<close> or a string.\<close>

definition opt_truthy :: "string option \<Rightarrow> bool" where
  "opt_truthy x = (case x of None \<Rightarrow> False | Some s \<Rightarrow> s \<noteq> [])"

text \<open>The exceptions caught by \<^verbatim>\<open>except (URLError, HTTPError)\<close> and by
  \<^verbatim>\<open>except FileNotFoundError\<close>.\<close>

fun is_url_error :: "error \<Rightarrow> bool" where
  "is_url_error (URLError m) = True"
| "is_url_error (HTTPError code body) = True"
| "is_url_error _ = False"

fun is_file_not_found :: "error \<Rightarrow> bool" where
  "is_file_not_found (FileNotFoundError path revision base_commit_id detail) = True"
| "is_file_not_found _ = False"

definition git_revision_detail :: string where
  "git_revision_detail =
     ''The necessary revision information needed to find this file was not provided. Use RBTools 0.5.2 or newer.''"

text \<open>The first statement of \<^verbatim>\<open>_api_get_src\<close>: the revision to fetch, or the error for a
  Git repository without a base commit ID.\<close>

definition src_revision ::
  "repository \<Rightarrow> string \<Rightarrow> string \<Rightarrow> string option \<Rightarrow> error + string" where
  "src_revision repo path revision base_commit_id =
     (case base_commit_id of
        Some b \<Rightarrow>
          if b \<noteq> [] then Inr b
          else if tool_name repo = ''Git''
            then Inl (FileNotFoundError path (Some revision) None (Some git_revision_detail))
          else Inr revision
      | None \<Rightarrow>
          if tool_name repo = ''Git''
            then Inl (FileNotFoundError path (Some revision) None (Some git_revision_detail))
          else Inr revision)"

definition api_get_src ::
  "'a svc_env_scheme \<Rightarrow> repository \<Rightarrow> string \<Rightarrow> string \<Rightarrow> string option \<Rightarrow> world \<Rightarrow>
   (error + json) \<times> world" where
  "api_get_src E repo path revision base_commit_id w =
     (case src_revision repo path revision base_commit_id of
        Inl e \<Rightarrow> (Inl e, w)
      | Inr fetch_revision \<Rightarrow>
          (case get_repository_owner (account w) repo of
             Inl e \<Rightarrow> (Inl e, w)
           | Inr owner \<Rightarrow>
               (case get_repository_name repo of
                  Inl e \<Rightarrow> (Inl e, w)
                | Inr repo_name \<Rightarrow>
                    (let url = build_api_url
                                 (''repositories/'' @ quote E owner @ ''/'' @ quote E repo_name @
                                  ''/raw/'' @ quote E fetch_revision @ ''/'' @ quote E path) ''1.0''
                     in case api_get E url True w of
                          (Inl e, w') \<Rightarrow>
                            if is_file_not_found e
                            then (Inl (FileNotFoundError path (Some fetch_revision) base_commit_id None), w')
                            else (Inl e, w')
                        | (Inr body, w') \<Rightarrow> (Inr body, w')))))"

definition get_file ::
  "'a svc_env_scheme \<Rightarrow> repository \<Rightarrow> string \<Rightarrow> string \<Rightarrow> string option \<Rightarrow> world \<Rightarrow>
   (error + json) \<times> world" where
  "get_file E repo path revision base_commit_id w =
     (case api_get_src E repo path revision base_commit_id w of
        (Inl e, w') \<Rightarrow>
          if is_url_error e then (Inl (FileNotFoundError path (Some revision) None None), w')
          else (Inl e, w')
      | (Inr body, w') \<Rightarrow> (Inr body, w'))"

definition get_file_exists ::
  "'a svc_env_scheme \<Rightarrow> repository \<Rightarrow> string \<Rightarrow> string \<Rightarrow> string option \<Rightarrow> world \<Rightarrow>
   (error + bool) \<times> world" where
  "get_file_exists E repo path revision base_commit_id w =
     (case api_get_src E repo path revision base_commit_id w of
        (Inl e, w') \<Rightarrow>
          if is_url_error e \<or> is_file_not_found e then (Inr False, w') else (Inl e, w')
      | (Inr body, w') \<Rightarrow> (Inr True, w'))"

subsection \<open>Authorization\<close>

text \<open>
  The two \<^verbatim>\<open>except\<close> clauses of \<^verbatim>\<open>authorize\<close>: both delete the password from the account
  data; a \<^verbatim>\<open>HostingServiceError\<close> whose \<^verbatim>\<open>http_code\<close> is 401 or 403 is replaced by
  \<^verbatim>\<open>_raise_auth_error()\<close>, any other exception is raised again.
\<close>

definition authorize_failed :: "error \<Rightarrow> world \<Rightarrow> (error + unit) \<times> world" where
  "authorize_failed e w =
     (let w' = w\<lparr>account := (account w)\<lparr>data := AList.delete ''password'' (data (account w))\<rparr>\<rparr>
      in case e of
           HostingServiceError m http_code \<Rightarrow>
             if http_code = Some 401 \<or> http_code = Some 403
             then (Inl (raise_auth_error None), w')
             else (Inl e, w')
         | _ \<Rightarrow> (Inl e, w'))"

definition authorize ::
  "'a svc_env_scheme \<Rightarrow> string \<Rightarrow> string \<Rightarrow> world \<Rightarrow> (error + unit) \<times> world" where
  "authorize E user password w =
     (let w1 = w\<lparr>account := (account w)\<lparr>data :=
                  AList.update ''password'' (encrypt_password E password) (data (account w))\<rparr>\<rparr>
      in case api_get E (build_api_url ''user'' ''1.0'') False w1 of
           (Inl e, w2) \<Rightarrow> authorize_failed e w2
         | (Inr rsp, w2) \<Rightarrow>
             (case save_raises E (account w2) of
                Some e \<Rightarrow> authorize_failed e w2
              | None \<Rightarrow> (Inr (), w2\<lparr>saved := saved w2 @ [account w2]\<rparr>)))"

definition is_authorized :: "world \<Rightarrow> bool" where
  "is_authorized w = (map_of (data (account w)) ''password'' \<noteq> None)"

subsection \<open>Branches\<close>

definition get_default_branch_name ::
  "'a svc_env_scheme \<Rightarrow> repository \<Rightarrow> world \<Rightarrow> (error + json) \<times> world" where
  "get_default_branch_name E repo w =
     (case build_repository_api_url (account w) repo ''main-branch/'' ''1.0'' of
        Inl e \<Rightarrow> (Inl e, w)
      | Inr url \<Rightarrow>
          (case api_get E url False w of
             (Inl e, w') \<Rightarrow> (Inl e, w')
           | (Inr rsp, w') \<Rightarrow> (py_getitem rsp ''name'', w')))"

text \<open>The loop of \<^verbatim>\<open>get_branches\<close> over the items of the response.\<close>

fun branches_loop :: "json \<Rightarrow> (string \<times> json) list \<Rightarrow> branch list \<Rightarrow> error + branch list" where
  "branches_loop default_branch_name [] branches = Inr branches"
| "branches_loop default_branch_name ((branch_name, b) # items) branches =
     (case py_getitem b ''raw_node'' of
        Inl e \<Rightarrow> Inl e
      | Inr node \<Rightarrow>
          branches_loop default_branch_name items
            (branches @
             [\<lparr>branch_id = branch_name, branch_commit = node,
               branch_default = (JStr branch_name = default_branch_name)\<rparr>]))"

text \<open>\<^verbatim>\<open>six.iteritems(rsp)\<close>: the items of a dict, each key once; another value has no
  \<^verbatim>\<open>iteritems\<close>.\<close>

fun iteritems :: "json \<Rightarrow> error + (string \<times> json) list" where
  "iteritems (JObj kvs) = Inr (AList.clearjunk kvs)"
| "iteritems _ = Inl AttributeError"

definition get_branches ::
  "'a svc_env_scheme \<Rightarrow> repository \<Rightarrow> world \<Rightarrow> (error + branch list) \<times> world" where
  "get_branches E repo w =
     (case get_default_branch_name E repo w of
        (Inl e, w1) \<Rightarrow> (Inl e, w1)
      | (Inr default_branch_name, w1) \<Rightarrow>
          (case build_repository_api_url (account w1) repo ''branches/'' ''1.0'' of
             Inl e \<Rightarrow> (Inl e, w1)
           | Inr url \<Rightarrow>
               (case api_get E url False w1 of
                  (Inl e, w2) \<Rightarrow> (Inl e, w2)
                | (Inr rsp, w2) \<Rightarrow>
                    (case iteritems rsp of
                       Inl e \<Rightarrow> (Inl e, w2)
                     | Inr items \<Rightarrow> (branches_loop default_branch_name items [], w2)))))"

subsection \<open>Commits\<close>










subsection \<open>Well-formed API responses\<close>



fun branch_item_ok :: "string \<times> json \<Rightarrow> bool" where
  "branch_item_ok (branch_name, JObj kvs) = (map_of kvs ''raw_node'' \<noteq> None)"
| "branch_item_ok _ = False"

fun branch_of_item :: "json \<Rightarrow> string \<times> json \<Rightarrow> branch" where
  "branch_of_item default_branch_name (branch_name, b) =
     \<lparr>branch_id = branch_name, branch_commit = commit_field b ''raw_node'',
      branch_default = (JStr branch_name = default_branch_name)\<rparr>"

subsection \<open>Example service\<close>

definition ex_account :: account where
  "ex_account = \<lparr>username = ''alice'', data = [(''password'', ''enc:secret'')]\<rparr>"

definition ex_team_repo :: repository where
  "ex_team_repo =
     \<lparr>tool_name = ''Mercurial'',
      extra_data = [(''repository_plan'', ''team''), (''bitbucket_team_name'', ''acme''),
                    (''bitbucket_team_repo_name'', ''tools'')]\<rparr>"

definition ex_http_get :: "string \<Rightarrow> string \<Rightarrow> string \<Rightarrow> error + string" where
  "ex_http_get url user password =
     (if password \<noteq> ''secret'' then Inl (HTTPError 403 ''Forbidden'')
      else if url = ''https://bitbucket.org/api/1.0/user'' then Inr ''{}''
      else if url = ''https://bitbucket.org/api/1.0/repositories/alice/proj/main-branch/''
        then Inr ''{\"name\": \"master\"}''
      else if url = ''https://bitbucket.org/api/1.0/repositories/alice/proj/branches/''
        then Inr ''{\"master\": {\"raw_node\": \"aa11\"}, \"stable\": {\"raw_node\": \"bb22\"}}''
      else if url = ''https://bitbucket.org/api/1.0/repositories/alice/proj/changesets/?limit=20&start=cc33''
        then Inr ''{\"changesets\": [...]}''
      else if url = ''https://bitbucket.org/api/2.0/repositories/alice/proj/diff/cc33''
        then Inr ''diff --git a/f b/f''
      else if url = ''https://bitbucket.org/api/1.0/repositories/acme/tools/raw/cc33/README''
        then Inr ''hello''
      else Inl (HTTPError 404 ''Not found''))"

definition ex_changesets :: "json list" where
  "ex_changesets =
     [JObj [(''author'', JStr ''bob''), (''raw_node'', JStr ''bb22''),
            (''utctimestamp'', JStr ''2014-01-01 10:00:00+00:00''), (''message'', JStr ''first''),
            (''parents'', JArr [])],
      JObj [(''author'', JStr ''alice''), (''raw_node'', JStr ''cc33''),
            (''utctimestamp'', JStr ''2014-01-02 11:30:00+00:00''), (''message'', JStr ''second''),
            (''parents'', JArr [JStr ''bb22''])]]"

definition ex_branches :: "(string \<times> json) list" where
  "ex_branches =
     [(''master'', JObj [(''raw_node'', JStr ''aa11'')]),
      (''stable'', JObj [(''raw_node'', JStr ''bb22'')])]"

definition ex_api_loads :: "string \<Rightarrow> string + json" where
  "ex_api_loads body =
     (if body = ''{}'' then Inr (JObj [])
      else if body = ''{\"name\": \"master\"}'' then Inr (JObj [(''name'', JStr ''master'')])
      else if body = ''{\"master\": {\"raw_node\": \"aa11\"}, \"stable\": {\"raw_node\": \"bb22\"}}''
        then Inr (JObj ex_branches)
      else if body = ''{\"changesets\": [...]}'' then Inr (JObj [(''changesets'', JArr ex_changesets)])
      else Inl ''No JSON object could be decoded'')"

definition ex_encrypt :: "string \<Rightarrow> string" where
  "ex_encrypt password = ''enc:'' @ password"

definition ex_decrypt :: "string \<Rightarrow> string" where
  "ex_decrypt encrypted = drop 4 encrypted"

definition ex_quote :: "string \<Rightarrow> string" where
  "ex_quote s = s"

definition ex_save_raises :: "account \<Rightarrow> error option" where
  "ex_save_raises acct = None"

definition ex_cache_get :: "string \<Rightarrow> commit option" where
  "ex_cache_get cache_key = None"

definition ex_cache_key :: "repository \<Rightarrow> string \<Rightarrow> string" where
  "ex_cache_key repo revision = ''commit:'' @ revision"

definition ex_env :: svc_env where
  "ex_env =
     \<lparr>json_loads = ex_api_loads, text_repr = ex_text_repr, http_get = ex_http_get,
      quote = ex_quote, encrypt_password = ex_encrypt, decrypt_password = ex_decrypt,
      save_raises = ex_save_raises, cache_get = ex_cache_get,
      get_commit_cache_key = ex_cache_key\<rparr>"

definition ex_world :: world where
  "ex_world = \<lparr>account = ex_account, saved = [], requests = []\<rparr>"

definition ex_commits_url :: string where
  "ex_commits_url =
     ''https://bitbucket.org/api/1.0/repositories/alice/proj/changesets/?limit=20&start=cc33''"

definition ex_main_url :: string where
  "ex_main_url = ''https://bitbucket.org/api/1.0/repositories/alice/proj/main-branch/''"

definition ex_branches_url :: string where
  "ex_branches_url = ''https://bitbucket.org/api/1.0/repositories/alice/proj/branches/''"

definition ex_diff_url :: string where
  "ex_diff_url = ''https://bitbucket.org/api/2.0/repositories/alice/proj/diff/cc33''"

definition ex_fetched :: "string list \<Rightarrow> world" where
  "ex_fetched urls = \<lparr>account = ex_account, saved = [], requests = urls\<rparr>"



section \<open>The review request datagrid\<close>

text \<open>
  A queryset is the query being built: the filter clauses added so far. A clause is
  \<^verbatim>\<open>status=...\<close> or \<^verbatim>\<open>local_site=...\<close> (\<open>None\<close> for the global site).
\<close>

datatype clause = Status string | LocalSite "nat option"

text \<open>The profile field that \<^verbatim>\<open>load_extra_state\<close> uses (\<^verbatim>\<open>profile.show_closed\<close>, here
  \<open>profile_show_closed\<close>), and the state of the grid: \<^verbatim>\<open>self.show_closed\<close>,
  \<^verbatim>\<open>self.queryset\<close>, \<^verbatim>\<open>self.local_site\<close> and \<^verbatim>\<open>self.request.GET\<close>.\<close>

record profile =
  profile_show_closed :: bool

record grid =
  show_closed :: bool
  queryset :: "clause list"
  local_site :: "nat option"
  GET :: "(string \<times> string) list"

text \<open>
  \<^verbatim>\<open>ReviewRequestDataGrid.load_extra_state\<close>. \<open>py_int\<close> is \<^verbatim>\<open>int\<close> on a string, \<open>None\<close>
  when it raises \<^verbatim>\<open>ValueError\<close>; without the URL parameter \<^verbatim>\<open>int\<close> is applied to the
  boolean \<^verbatim>\<open>self.show_closed\<close>. The profile is \<^verbatim>\<open>None\<close> or a model instance, which is
  true. The result is the returned flag, the grid and the profile after the call.
\<close>

definition load_extra_state ::
  "(string \<Rightarrow> int option) \<Rightarrow> profile option \<Rightarrow> grid \<Rightarrow> bool \<times> grid \<times> profile option" where
  "load_extra_state py_int prof g =
     (let g1 = (case prof of None \<Rightarrow> g | Some p \<Rightarrow> g\<lparr>show_closed := profile_show_closed p\<rparr>);
          g2 = (case map_of (GET g1) ''show-closed'' of
                  None \<Rightarrow> g1\<lparr>show_closed := ((if show_closed g1 then 1 else 0 :: int) \<noteq> 0)\<rparr>
                | Some s \<Rightarrow>
                    (case py_int s of
                       None \<Rightarrow> g1
                     | Some n \<Rightarrow> g1\<lparr>show_closed := (n \<noteq> 0)\<rparr>));
          g3 = (if \<not> show_closed g2 then g2\<lparr>queryset := queryset g2 @ [Status ''P'']\<rparr> else g2);
          g4 = g3\<lparr>queryset := queryset g3 @ [LocalSite (local_site g3)]\<rparr>
      in case prof of
           None \<Rightarrow> (False, g4, None)
         | Some p \<Rightarrow>
             if show_closed g4 \<noteq> profile_show_closed p
             then (True, g4, Some (p\<lparr>profile_show_closed := show_closed g4\<rparr>))
             else (False, g4, Some p))"

text \<open>The effective setting in the words of the specification: the value of the profile
  (of the grid when there is no profile), overridden by a \<^verbatim>\<open>show-closed\<close> parameter that
  parses as an integer.\<close>

definition effective_show_closed ::
  "(string \<Rightarrow> int option) \<Rightarrow> profile option \<Rightarrow> grid \<Rightarrow> bool" where
  "effective_show_closed py_int prof g =
     (let base = (case prof of None \<Rightarrow> show_closed g | Some p \<Rightarrow> profile_show_closed p)
      in case map_of (GET g) ''show-closed'' of
           None \<Rightarrow> base
         | Some s \<Rightarrow> (case py_int s of None \<Rightarrow> base | Some n \<Rightarrow> n \<noteq> 0))"

definition ex_py_int :: "string \<Rightarrow> int option" where
  "ex_py_int s = (if s = ''0'' then Some 0 else if s = ''1'' then Some 1 else None)"

definition ex_grid :: grid where
  "ex_grid = \<lparr>show_closed = True, queryset = [], local_site = Some 3, GET = [(''show-closed'', ''0'')]\<rparr>"

definition ex_profile :: profile where
  "ex_profile = \<lparr>profile_show_closed = True\<rparr>"

section \<open>Verified properties\<close>

subsection \<open>The map from review request IDs to commits\<close>

lemma dd_append_keys: "fst ` set (dd_append k v m) = insert k (fst ` set m)"
  by (induction k v m rule: dd_append.induct) (simp_all add: insert_commute)

lemma dd_append_distinct: "distinct (map fst m) \<Longrightarrow> distinct (map fst (dd_append k v m))"
  by (induction m) (auto simp: dd_append_keys)

lemma dd_append_lookup:
  "dd_lookup (dd_append k v m) k' = (if k' = k then dd_lookup m k @ [v] else dd_lookup m k')"
  by (induction m) (auto simp: dd_lookup_def)

lemma commit_ok_step:
  assumes "commit_ok c"
  shows "commits_loop g t u r (c # cs) m =
           commits_loop g t u r cs
             (if has_branch c then dd_append (commit_key g u r c) (commit_entry t c) m else m)"
proof -
  from assms obtain kvs where c: "c = JObj kvs" by (cases c) auto
  show ?thesis
  proof (cases "truthy (dict_get kvs ''branch'' JNull)")
    case True
    with assms c have "sliceable (dict_get kvs ''raw_node'' JNull)" by simp
    then show ?thesis using True c
      by (cases "dict_get kvs ''raw_node'' JNull") (simp_all add: commit_key_def commit_entry_def)
  next
    case False
    then show ?thesis using c by simp
  qed
qed

lemma commits_loop_ok:
  "list_all commit_ok cs \<Longrightarrow>
   \<exists>m'. commits_loop g t u r cs m = Inr m' \<and>
        (distinct (map fst m) \<longrightarrow> distinct (map fst m')) \<and>
        fst ` set m' = fst ` set m \<union> {k. entries_for g t u r k cs \<noteq> []} \<and>
        (\<forall>k. dd_lookup m' k = dd_lookup m k @ entries_for g t u r k cs)"
proof (induction cs arbitrary: m)
  case Nil
  then show ?case by (simp add: entries_for_def)
next
  case (Cons c cs)
  then have ok: "commit_ok c" and oks: "list_all commit_ok cs" by simp_all
  let ?m = "if has_branch c then dd_append (commit_key g u r c) (commit_entry t c) m else m"
  from Cons.IH[OF oks, of ?m] obtain m' where
    m': "commits_loop g t u r cs ?m = Inr m'"
    and d: "distinct (map fst ?m) \<longrightarrow> distinct (map fst m')"
    and k: "fst ` set m' = fst ` set ?m \<union> {k. entries_for g t u r k cs \<noteq> []}"
    and l: "\<forall>k. dd_lookup m' k = dd_lookup ?m k @ entries_for g t u r k cs"
    by blast
  have 1: "commits_loop g t u r (c # cs) m = Inr m'"
    using commit_ok_step[OF ok] m' by simp
  have 2: "distinct (map fst m) \<longrightarrow> distinct (map fst m')"
    using d by (simp add: dd_append_distinct split: if_splits)
  have 3: "fst ` set m' = fst ` set m \<union> {k. entries_for g t u r k (c # cs) \<noteq> []}"
    unfolding k by (auto simp: dd_append_keys entries_for_def simp del: has_branch.simps)
  have 4: "\<forall>k. dd_lookup m' k = dd_lookup m k @ entries_for g t u r k (c # cs)"
    using l by (auto simp: dd_append_lookup entries_for_def simp del: has_branch.simps)
  from 1 2 3 4 show ?case by blast
qed

lemma py_slice7_not_sliceable: "\<not> sliceable v \<Longrightarrow> py_slice7 v = Inl TypeError"
  by (cases v) simp_all

lemma commit_not_ok_step:
  assumes "\<not> commit_ok c"
  shows "\<exists>e. commits_loop g t u r (c # cs) m = Inl e"
proof (cases c)
  case (JObj kvs)
  with assms have b: "truthy (dict_get kvs ''branch'' JNull)"
    and h: "\<not> sliceable (dict_get kvs ''raw_node'' JNull)"
    by (simp_all split: if_splits)
  show ?thesis using JObj b py_slice7_not_sliceable[OF h] by simp
qed simp_all

lemma commits_loop_not_ok:
  "\<not> list_all commit_ok cs \<Longrightarrow> \<exists>e. commits_loop g t u r cs m = Inl e"
proof (induction cs arbitrary: m)
  case Nil
  then show ?case by simp
next
  case (Cons c cs)
  show ?case
  proof (cases "commit_ok c")
    case True
    with Cons.prems have "\<not> list_all commit_ok cs" by simp
    from Cons.IH[OF this] show ?thesis using commit_ok_step[OF True] by simp
  next
    case False
    then show ?thesis by (rule commit_not_ok_step)
  qed
qed

lemma payload_commits_Some:
  "payload_commits payload = Some cs \<Longrightarrow>
   get_review_request_id_to_commits_map g t payload u r = commits_loop g t u r cs []"
  by (cases payload) (simp_all add: get_review_request_id_to_commits_map_def split: sum.splits)

lemma payload_commits_None:
  "payload_commits payload = None \<Longrightarrow>
   \<exists>e. get_review_request_id_to_commits_map g t payload u r = Inl e"
  by (cases payload) (simp_all add: get_review_request_id_to_commits_map_def split: sum.splits)

lemma commits_map_returns_iff:
  "(\<exists>m. get_review_request_id_to_commits_map g t payload u r = Inr m) \<longleftrightarrow> payload_ok payload"
proof (cases "payload_commits payload")
  case None
  with payload_commits_None[OF None, of g t u r] show ?thesis
    by (auto simp: payload_ok_def)
next
  case (Some cs)
  show ?thesis
  proof (cases "list_all commit_ok cs")
    case True
    with commits_loop_ok[OF True, of g t u r "[]"] show ?thesis
      by (auto simp: payload_ok_def Some payload_commits_Some[OF Some])
  next
    case False
    with commits_loop_not_ok[OF False, of g t u r "[]"] show ?thesis
      by (auto simp: payload_ok_def Some payload_commits_Some[OF Some])
  qed
qed

lemma commits_map_ok:
  assumes cs: "payload_commits payload = Some cs" and ok: "list_all commit_ok cs"
  shows "\<exists>m. get_review_request_id_to_commits_map g t payload u r = Inr m \<and>
             distinct (map fst m) \<and>
             (\<forall>k. map_of m k =
                (if entries_for g t u r k cs = [] then None
                 else Some (entries_for g t u r k cs)))"
proof -
  from commits_loop_ok[OF ok, of g t u r "[]"] obtain m where
    m: "commits_loop g t u r cs [] = Inr m"
    and d: "distinct (map fst m)"
    and k: "fst ` set m = {k. entries_for g t u r k cs \<noteq> []}"
    and l: "\<forall>k. dd_lookup m k = entries_for g t u r k cs"
    by (auto simp: dd_lookup_def)
  have "map_of m k =
          (if entries_for g t u r k cs = [] then None else Some (entries_for g t u r k cs))" for k
  proof (cases "map_of m k")
    case None
    then have "k \<notin> fst ` set m" by (simp add: map_of_eq_None_iff)
    with k None show ?thesis by simp
  next
    case (Some l')
    then have "k \<in> fst ` set m" by (metis map_of_eq_None_iff option.distinct(1))
    moreover from l have "dd_lookup m k = entries_for g t u r k cs" by blast
    with Some have "l' = entries_for g t u r k cs" by (simp add: dd_lookup_def)
    ultimately show ?thesis using k Some by auto
  qed
  with m d show ?thesis by (simp add: payload_commits_Some[OF cs])
qed

text \<open>
  C2 (as amended). On every payload of the shape above (a dict whose \<^verbatim>\<open>commits\<close> value can
  be iterated and holds dicts, the \<^verbatim>\<open>raw_node\<close> of a commit with a true \<^verbatim>\<open>branch\<close> being
  a string or a list) \<^verbatim>\<open>_get_review_request_id_to_commits_map\<close> returns a dict with one
  list per key, and the list under a key \<open>k\<close> holds exactly the entries
  \<^verbatim>\<open><branch> (<first 7 characters of the hash>)\<close> of the commits that have a true branch and
  whose review request ID (\<open>None\<close> included) is \<open>k\<close>, one entry per commit, in the
  order of the commits; a key with no such commit is absent, so a commit with no branch
  contributes nothing.
\<close>

theorem commits_map_of_payload:
  assumes "payload_commits payload = Some cs" and "list_all commit_ok cs"
  shows "\<exists>m. get_review_request_id_to_commits_map get_rrid repr payload server_url repo = Inr m \<and>
             distinct (map fst m) \<and>
             (\<forall>k. map_of m k =
                (if entries_for get_rrid repr server_url repo k cs = [] then None
                 else Some (entries_for get_rrid repr server_url repo k cs)))"
  using assms by (rule commits_map_ok)

theorem commits_map_of_payload_witness:
  "payload_commits ex_payload = Some ex_commits \<and> list_all commit_ok ex_commits \<and>
   (\<exists>m. get_review_request_id_to_commits_map ex_get_rrid ex_text_repr ex_payload
            ''https://rb.example.com/'' ex_repo = Inr m \<and>
        distinct (map fst m) \<and>
        (\<forall>k. map_of m k =
           (if entries_for ex_get_rrid ex_text_repr ''https://rb.example.com/'' ex_repo k ex_commits = []
            then None
            else Some (entries_for ex_get_rrid ex_text_repr ''https://rb.example.com/'' ex_repo k
                         ex_commits)))) \<and>
   entries_for ex_get_rrid ex_text_repr ''https://rb.example.com/'' ex_repo (Some 12) ex_commits =
     [''master (0123456)'']"
proof -
  have c: "payload_commits ex_payload = Some ex_commits"
    by (simp add: ex_payload_def ex_commits_def dict_get_def)
  have o: "list_all commit_ok ex_commits"
    by (simp add: ex_commits_def dict_get_def)
  have e: "entries_for ex_get_rrid ex_text_repr ''https://rb.example.com/'' ex_repo (Some 12)
             ex_commits = [''master (0123456)'']"
    by (simp add: entries_for_def commit_entry_def commit_key_def ex_commits_def dict_get_def
        ex_get_rrid_def)
  from commits_map_of_payload[OF c o] c o e show ?thesis by blast
qed

text \<open>
  C2 as stated fails: a commit that has a branch and no \<^verbatim>\<open>raw_node\<close> makes
  \<^verbatim>\<open>commit_hash\<close> \<^verbatim>\<open>None\<close>, and \<^verbatim>\<open>commit_hash[:7]\<close> raises \<^verbatim>\<open>TypeError\<close>: no
  dictionary is returned.
\<close>

theorem commits_map_missing_hash_counterexample:
  "get_review_request_id_to_commits_map ex_get_rrid ex_text_repr ex_payload_no_hash
     ''https://rb.example.com/'' ex_repo = Inl TypeError"
  by (simp add: get_review_request_id_to_commits_map_def ex_payload_no_hash_def dict_get_def)

subsection \<open>The close-submitted view\<close>

lemma hook_not_payload:
  assumes "request_method request = ''POST''"
    and "map_of (POST request) ''payload'' = None"
  shows "post_receive_hook_close_submitted E request local_site_name repository_id
           hosting_service_id hooks_uuid st =
         (Inr (HttpResponseBadRequest ''Missing payload''), st)"
  using assms by (simp add: post_receive_hook_close_submitted_def)

lemma hook_invalid_payload:
  assumes "request_method request = ''POST''"
    and "map_of (POST request) ''payload'' = Some text"
    and "json_loads E text = Inl msg"
  shows "post_receive_hook_close_submitted E request local_site_name repository_id
           hosting_service_id hooks_uuid st =
         (Inr (HttpResponseBadRequest ''Invalid payload format''),
          st\<lparr>logged := logged st @ [''The payload is not in JSON format: '' @ msg]\<rparr>)"
  using assms by (simp add: post_receive_hook_close_submitted_def)

lemma hook_valid_payload:
  assumes "request_method request = ''POST''"
    and "map_of (POST request) ''payload'' = Some text"
    and "json_loads E text = Inr payload"
  shows "post_receive_hook_close_submitted E request local_site_name repository_id
           hosting_service_id hooks_uuid st =
         (case get_review_request_id_to_commits_map (get_review_request_id E) (text_repr E)
                 payload (get_server_url E request)
                 (get_repository_for_hook E repository_id hosting_service_id local_site_name
                    hooks_uuid) of
            Inl e \<Rightarrow> (Inl e, st)
          | Inr m \<Rightarrow>
              (Inr (HttpResponse []),
               if m \<noteq> []
               then st\<lparr>close_calls := close_calls st @
                        [(m, local_site_name,
                          get_repository_for_hook E repository_id hosting_service_id
                            local_site_name hooks_uuid,
                          hosting_service_id)]\<rparr>
               else st))"
  using assms by (simp add: post_receive_hook_close_submitted_def Let_def)

lemma hook_malformed_payload_raises:
  assumes "request_method request = ''POST''"
    and "map_of (POST request) ''payload'' = Some text"
    and "json_loads E text = Inr payload"
    and "\<not> payload_ok payload"
  shows "\<exists>e. post_receive_hook_close_submitted E request local_site_name repository_id
               hosting_service_id hooks_uuid st = (Inl e, st)"
proof -
  from assms(4) commits_map_returns_iff obtain e where
    "get_review_request_id_to_commits_map (get_review_request_id E) (text_repr E)
       payload (get_server_url E request)
       (get_repository_for_hook E repository_id hosting_service_id local_site_name
          hooks_uuid) = Inl e"
    by (metis sum.exhaust)
  then show ?thesis using hook_valid_payload[OF assms(1-3)] by simp
qed

text \<open>
  C1 (as amended). For every POST whose \<^verbatim>\<open>payload\<close> field holds valid JSON of the shape on
  which the map is built (\<open>payload_ok\<close>), the view builds the map from review request
  IDs to commits, calls \<^verbatim>\<open>close_all_review_requests\<close> once with it when it is not empty and
  not at all when it is empty, and returns an HTTP 200 response.
\<close>

theorem close_submitted_hook_closes_and_returns_200:
  assumes "request_method request = ''POST''"
    and "map_of (POST request) ''payload'' = Some text"
    and "json_loads E text = Inr payload"
    and "payload_ok payload"
  shows "\<exists>m. get_review_request_id_to_commits_map (get_review_request_id E) (text_repr E)
               payload (get_server_url E request)
               (get_repository_for_hook E repository_id hosting_service_id local_site_name
                  hooks_uuid) = Inr m \<and>
             post_receive_hook_close_submitted E request local_site_name repository_id
               hosting_service_id hooks_uuid st =
             (Inr \<lparr>status_code = 200, content = []\<rparr>,
              if m \<noteq> []
              then st\<lparr>close_calls := close_calls st @
                       [(m, local_site_name,
                         get_repository_for_hook E repository_id hosting_service_id
                           local_site_name hooks_uuid,
                         hosting_service_id)]\<rparr>
              else st)"
proof -
  from assms(4) obtain m where
    "get_review_request_id_to_commits_map (get_review_request_id E) (text_repr E)
       payload (get_server_url E request)
       (get_repository_for_hook E repository_id hosting_service_id local_site_name
          hooks_uuid) = Inr m"
    using commits_map_returns_iff by blast
  then show ?thesis
    using hook_valid_payload[OF assms(1-3)] by (simp add: HttpResponse_def)
qed

theorem close_submitted_hook_closes_and_returns_200_witness:
  "request_method ex_request_ok = ''POST'' \<and>
   map_of (POST ex_request_ok) ''payload'' = Some ex_payload_text \<and>
   json_loads ex_hook_env ex_payload_text = Inr ex_payload \<and>
   payload_ok ex_payload \<and>
   post_receive_hook_close_submitted ex_hook_env ex_request_ok None 1 ''bitbucket'' None
     ex_hook_state =
   (Inr \<lparr>status_code = 200, content = []\<rparr>,
    \<lparr>close_calls = [([(Some 12, [''master (0123456)''])], None, ex_repo, ''bitbucket'')],
     logged = []\<rparr>)"
proof -
  have 1: "request_method ex_request_ok = ''POST''" by (simp add: ex_request_ok_def)
  have 2: "map_of (POST ex_request_ok) ''payload'' = Some ex_payload_text"
    by (simp add: ex_request_ok_def)
  have 3: "json_loads ex_hook_env ex_payload_text = Inr ex_payload"
    by (simp add: ex_hook_env_def ex_json_loads_def ex_payload_def ex_payload_text_def)
  have 4: "payload_ok ex_payload"
    by (simp add: payload_ok_def ex_payload_def dict_get_def)
  have 5: "get_review_request_id_to_commits_map (get_review_request_id ex_hook_env)
             (text_repr ex_hook_env) ex_payload (get_server_url ex_hook_env ex_request_ok)
             (get_repository_for_hook ex_hook_env 1 ''bitbucket'' None None) =
           Inr [(Some 12, [''master (0123456)''])]"
    by (simp add: get_review_request_id_to_commits_map_def ex_payload_def dict_get_def
        ex_hook_env_def ex_get_rrid_def)
  from close_submitted_hook_closes_and_returns_200[OF 1 2 3 4, of 1 "''bitbucket''" None None ex_hook_state]
  show ?thesis using 1 2 3 4 5 by (auto simp: ex_hook_state_def ex_hook_env_def)
qed

text \<open>
  C1 as stated fails: \<^verbatim>\<open>[]\<close> is valid JSON, \<^verbatim>\<open>json.loads\<close> gives a list, and
  \<^verbatim>\<open>payload.get\<close> raises \<^verbatim>\<open>AttributeError\<close>; the view returns no response.
\<close>

theorem close_submitted_hook_json_list_counterexample:
  "request_method ex_request_list = ''POST'' \<and>
   map_of (POST ex_request_list) ''payload'' = Some ''[]'' \<and>
   json_loads ex_hook_env ''[]'' = Inr (JArr []) \<and>
   post_receive_hook_close_submitted ex_hook_env ex_request_list None 1 ''bitbucket'' None
     ex_hook_state = (Inl AttributeError, ex_hook_state)"
  by (simp add: post_receive_hook_close_submitted_def ex_request_list_def ex_hook_env_def
      ex_json_loads_def get_review_request_id_to_commits_map_def)

text \<open>
  C7. A POST without a \<^verbatim>\<open>payload\<close> field is answered with status 400 and the body
  \<^verbatim>\<open>Missing payload\<close>; a POST whose \<^verbatim>\<open>payload\<close> is not valid JSON is answered with status
  400 and the body \<^verbatim>\<open>Invalid payload format\<close>. In both cases
  \<^verbatim>\<open>close_all_review_requests\<close> is not called.
\<close>

theorem close_submitted_hook_bad_request:
  assumes "request_method request = ''POST''"
  shows "(map_of (POST request) ''payload'' = None \<longrightarrow>
            post_receive_hook_close_submitted E request local_site_name repository_id
              hosting_service_id hooks_uuid st =
            (Inr \<lparr>status_code = 400, content = ''Missing payload''\<rparr>, st)) \<and>
         (\<forall>text msg. map_of (POST request) ''payload'' = Some text \<and> json_loads E text = Inl msg \<longrightarrow>
            fst (post_receive_hook_close_submitted E request local_site_name repository_id
                   hosting_service_id hooks_uuid st) =
              Inr \<lparr>status_code = 400, content = ''Invalid payload format''\<rparr> \<and>
            close_calls (snd (post_receive_hook_close_submitted E request local_site_name
                           repository_id hosting_service_id hooks_uuid st)) = close_calls st)"
  using assms hook_not_payload hook_invalid_payload
  by (simp add: HttpResponseBadRequest_def)

theorem close_submitted_hook_bad_request_witness:
  "request_method ex_request_missing = ''POST'' \<and>
   map_of (POST ex_request_missing) ''payload'' = None \<and>
   post_receive_hook_close_submitted ex_hook_env ex_request_missing None 1 ''bitbucket'' None
     ex_hook_state =
   (Inr \<lparr>status_code = 400, content = ''Missing payload''\<rparr>, ex_hook_state) \<and>
   request_method ex_request_invalid = ''POST'' \<and>
   map_of (POST ex_request_invalid) ''payload'' = Some ''{not json'' \<and>
   json_loads ex_hook_env ''{not json'' = Inl ''No JSON object could be decoded'' \<and>
   fst (post_receive_hook_close_submitted ex_hook_env ex_request_invalid None 1 ''bitbucket''
          None ex_hook_state) =
     Inr \<lparr>status_code = 400, content = ''Invalid payload format''\<rparr> \<and>
   close_calls (snd (post_receive_hook_close_submitted ex_hook_env ex_request_invalid None 1
                  ''bitbucket'' None ex_hook_state)) = close_calls ex_hook_state"
proof -
  have 1: "request_method ex_request_missing = ''POST''" by (simp add: ex_request_missing_def)
  have 2: "map_of (POST ex_request_missing) ''payload'' = None"
    by (simp add: ex_request_missing_def)
  have 3: "request_method ex_request_invalid = ''POST''" by (simp add: ex_request_invalid_def)
  have 4: "map_of (POST ex_request_invalid) ''payload'' = Some ''{not json''"
    by (simp add: ex_request_invalid_def)
  have 5: "json_loads ex_hook_env ''{not json'' = Inl ''No JSON object could be decoded''"
    by (simp add: ex_hook_env_def ex_json_loads_def ex_payload_text_def)
  from close_submitted_hook_bad_request[OF 1, of ex_hook_env None 1 "''bitbucket''" None ex_hook_state]
    close_submitted_hook_bad_request[OF 3, of ex_hook_env None 1 "''bitbucket''" None ex_hook_state]
    1 2 3 4 5
  show ?thesis by blast
qed

subsection \<open>Evaluating the service\<close>

lemmas ex_service_defs =
  ex_env_def ex_world_def ex_account_def ex_repo_def ex_team_repo_def ex_http_get_def
  ex_api_loads_def ex_encrypt_def ex_decrypt_def ex_quote_def ex_save_raises_def
  ex_cache_get_def ex_cache_key_def ex_text_repr_def ex_commits_url_def ex_main_url_def
  ex_branches_url_def ex_diff_url_def ex_fetched_def ex_changesets_def ex_branches_def

lemmas service_defs =
  api_get_def dict_item_def build_api_url_def build_repository_api_url_def
  get_repository_owner_def get_repository_name_def get_repository_owner_raw_def
  get_repository_name_raw_def get_repository_plan_def DEFAULT_PLAN_def
  check_api_error_def api_error_message_def raise_auth_error_def startswith_def

subsection \<open>Plans\<close>

text \<open>
  C4. For every plan name other than \<^verbatim>\<open>personal\<close>, \<^verbatim>\<open>team\<close> and \<^verbatim>\<open>other-user\<close>, both
  \<^verbatim>\<open>_get_repository_name_raw\<close> and \<^verbatim>\<open>_get_repository_owner_raw\<close> raise
  \<^verbatim>\<open>InvalidPlanError\<close>; for \<^verbatim>\<open>personal\<close> the owner is the username of the hosting account,
  for \<^verbatim>\<open>team\<close> and \<^verbatim>\<open>other-user\<close> it is read from the extra data (a \<^verbatim>\<open>KeyError\<close> when the
  key is absent).
\<close>

theorem repository_plan_dispatch:
  "(plan \<noteq> ''personal'' \<and> plan \<noteq> ''team'' \<and> plan \<noteq> ''other-user'' \<longrightarrow>
      get_repository_name_raw plan extra = Inl (InvalidPlanError plan) \<and>
      get_repository_owner_raw acct plan extra = Inl (InvalidPlanError plan)) \<and>
   get_repository_owner_raw acct ''personal'' extra = Inr (username acct) \<and>
   get_repository_owner_raw acct ''team'' extra = dict_item extra ''bitbucket_team_name'' \<and>
   get_repository_owner_raw acct ''other-user'' extra =
     dict_item extra ''bitbucket_other_user_username''"
  by (simp add: get_repository_name_raw_def get_repository_owner_raw_def)

theorem repository_plan_dispatch_witness:
  "''enterprise'' \<noteq> ''personal'' \<and> ''enterprise'' \<noteq> ''team'' \<and> ''enterprise'' \<noteq> ''other-user'' \<and>
   get_repository_name_raw ''enterprise'' (extra_data ex_team_repo) =
     Inl (InvalidPlanError ''enterprise'') \<and>
   get_repository_owner_raw ex_account ''enterprise'' (extra_data ex_team_repo) =
     Inl (InvalidPlanError ''enterprise'') \<and>
   get_repository_owner_raw ex_account ''personal'' (extra_data ex_team_repo) = Inr ''alice'' \<and>
   get_repository_owner_raw ex_account ''team'' (extra_data ex_team_repo) = Inr ''acme'' \<and>
   get_repository_owner_raw ex_account ''other-user'' (extra_data ex_team_repo) =
     Inl (KeyError ''bitbucket_other_user_username'')"
  using repository_plan_dispatch[of "''enterprise''" "extra_data ex_team_repo" ex_account]
  by (simp add: ex_team_repo_def ex_account_def dict_item_def)

subsection \<open>Fetching files\<close>

lemma api_get_world:
  assumes "api_get E url raw w = (r, w')"
  shows "account w' = account w \<and> saved w' = saved w \<and>
         (requests w' = requests w \<or> requests w' = requests w @ [url])"
  using assms
  by (auto simp: api_get_def Let_def split: sum.splits error.splits if_splits)



lemma src_revision_git:
  assumes "tool_name repo = ''Git''" and "\<not> opt_truthy base_commit_id"
  shows "src_revision repo path revision base_commit_id =
           Inl (FileNotFoundError path (Some revision) None (Some git_revision_detail))"
  using assms by (simp add: src_revision_def opt_truthy_def split: option.splits)

lemma api_get_src_git:
  assumes "tool_name repo = ''Git''" and "\<not> opt_truthy base_commit_id"
  shows "api_get_src E repo path revision base_commit_id w =
           (Inl (FileNotFoundError path (Some revision) None (Some git_revision_detail)), w)"
  by (simp add: api_get_src_def src_revision_git[OF assms])

lemma get_file_exists_cases:
  "get_file_exists E repo path revision base_commit_id w =
     (case api_get_src E repo path revision base_commit_id w of
        (Inl e, w') \<Rightarrow>
          if is_url_error e \<or> is_file_not_found e then (Inr False, w') else (Inl e, w')
      | (Inr body, w') \<Rightarrow> (Inr True, w'))"
  by (simp add: get_file_exists_def)

text \<open>
  C9. For a Git repository and no base commit ID (\<^verbatim>\<open>None\<close> or empty), \<^verbatim>\<open>get_file\<close> raises
  \<^verbatim>\<open>FileNotFoundError\<close> with the detail that asks for revision information,
  \<^verbatim>\<open>get_file_exists\<close> returns \<^verbatim>\<open>False\<close>, and the state of the service, with its list of
  fetched URLs, is the one before the call: no API request is made. In general
  \<^verbatim>\<open>get_file_exists\<close> never raises \<^verbatim>\<open>URLError\<close>, \<^verbatim>\<open>HTTPError\<close> or
  \<^verbatim>\<open>FileNotFoundError\<close>; it returns \<^verbatim>\<open>True\<close> exactly when \<^verbatim>\<open>_api_get_src\<close> returns, and
  \<^verbatim>\<open>False\<close> when \<^verbatim>\<open>_api_get_src\<close> raises one of those errors.
\<close>

theorem get_file_without_base_commit:
  "(tool_name repo = ''Git'' \<and> \<not> opt_truthy base_commit_id \<longrightarrow>
      get_file E repo path revision base_commit_id w =
        (Inl (FileNotFoundError path (Some revision) None (Some git_revision_detail)), w) \<and>
      get_file_exists E repo path revision base_commit_id w = (Inr False, w)) \<and>
   (\<forall>e. fst (get_file_exists E repo path revision base_commit_id w) = Inl e \<longrightarrow>
        \<not> is_url_error e \<and> \<not> is_file_not_found e) \<and>
   (fst (get_file_exists E repo path revision base_commit_id w) = Inr True \<longleftrightarrow>
      (\<exists>body. fst (api_get_src E repo path revision base_commit_id w) = Inr body)) \<and>
   (\<forall>e. fst (api_get_src E repo path revision base_commit_id w) = Inl e \<and>
        (is_url_error e \<or> is_file_not_found e) \<longrightarrow>
        fst (get_file_exists E repo path revision base_commit_id w) = Inr False)"
proof (intro conjI impI allI)
  assume g: "tool_name repo = ''Git'' \<and> \<not> opt_truthy base_commit_id"
  then show "get_file E repo path revision base_commit_id w =
        (Inl (FileNotFoundError path (Some revision) None (Some git_revision_detail)), w)"
    by (simp add: get_file_def api_get_src_git)
  from g show "get_file_exists E repo path revision base_commit_id w = (Inr False, w)"
    by (simp add: get_file_exists_def api_get_src_git)
next
  fix e
  assume "fst (get_file_exists E repo path revision base_commit_id w) = Inl e"
  then show "\<not> is_url_error e" and "\<not> is_file_not_found e"
    by (auto simp: get_file_exists_cases split: prod.splits sum.splits if_splits)
next
  show "fst (get_file_exists E repo path revision base_commit_id w) = Inr True \<longleftrightarrow>
      (\<exists>body. fst (api_get_src E repo path revision base_commit_id w) = Inr body)"
    by (auto simp: get_file_exists_cases split: prod.splits sum.splits if_splits)
next
  fix e
  assume "fst (api_get_src E repo path revision base_commit_id w) = Inl e \<and>
        (is_url_error e \<or> is_file_not_found e)"
  then show "fst (get_file_exists E repo path revision base_commit_id w) = Inr False"
    by (auto simp: get_file_exists_cases split: prod.splits sum.splits if_splits)
qed

theorem get_file_without_base_commit_witness:
  "tool_name ex_repo = ''Git'' \<and> \<not> opt_truthy None \<and>
   get_file ex_env ex_repo ''README'' ''cc33'' None ex_world =
     (Inl (FileNotFoundError ''README'' (Some ''cc33'') None (Some git_revision_detail)), ex_world) \<and>
   get_file_exists ex_env ex_repo ''README'' ''cc33'' None ex_world = (Inr False, ex_world) \<and>
   fst (api_get_src ex_env ex_team_repo ''README'' ''cc33'' None ex_world) = Inr (JStr ''hello'') \<and>
   fst (get_file_exists ex_env ex_team_repo ''README'' ''cc33'' None ex_world) = Inr True \<and>
   fst (api_get_src ex_env ex_team_repo ''MISSING'' ''cc33'' None ex_world) =
     Inl (FileNotFoundError ''MISSING'' (Some ''cc33'') None None) \<and>
   is_file_not_found (FileNotFoundError ''MISSING'' (Some ''cc33'') None None) \<and>
   fst (get_file_exists ex_env ex_team_repo ''MISSING'' ''cc33'' None ex_world) = Inr False"
proof -
  have 1: "tool_name ex_repo = ''Git'' \<and> \<not> opt_truthy None"
    by (simp add: ex_repo_def opt_truthy_def)
  have 2: "fst (api_get_src ex_env ex_team_repo ''README'' ''cc33'' None ex_world) =
             Inr (JStr ''hello'')"
    by (simp add: api_get_src_def src_revision_def service_defs ex_service_defs)
  have 3: "fst (api_get_src ex_env ex_team_repo ''MISSING'' ''cc33'' None ex_world) =
             Inl (FileNotFoundError ''MISSING'' (Some ''cc33'') None None)"
    by (simp add: api_get_src_def src_revision_def service_defs ex_service_defs)
  from get_file_without_base_commit[of ex_repo None ex_env "''README''" "''cc33''" ex_world]
    get_file_without_base_commit[of ex_team_repo None ex_env "''README''" "''cc33''" ex_world]
    get_file_without_base_commit[of ex_team_repo None ex_env "''MISSING''" "''cc33''" ex_world]
    1 2 3
  show ?thesis by (metis is_file_not_found.simps(1))
qed

subsection \<open>Authorization\<close>

lemma authorize_failed_world:
  assumes "authorize_failed e w = (r, w')"
  shows "(\<exists>e'. r = Inl e') \<and>
         data (account w') = AList.delete ''password'' (data (account w)) \<and>
         username (account w') = username (account w) \<and>
         saved w' = saved w \<and> requests w' = requests w"
  using assms
  by (auto simp: authorize_failed_def Let_def split: error.splits if_splits)

lemma authorize_failed_auth:
  assumes "c = 401 \<or> c = 403"
  shows "fst (authorize_failed (HostingServiceError m (Some c)) w) =
           Inl (AuthorizationError auth_error_message)"
  using assms by (auto simp: authorize_failed_def Let_def raise_auth_error_def)

lemma authorize_cases:
  "authorize E user password w =
     (case api_get E (build_api_url ''user'' ''1.0'') False
             (w\<lparr>account := (account w)\<lparr>data :=
                  AList.update ''password'' (encrypt_password E password) (data (account w))\<rparr>\<rparr>) of
        (Inl e, w2) \<Rightarrow> authorize_failed e w2
      | (Inr rsp, w2) \<Rightarrow>
          (case save_raises E (account w2) of
             Some e \<Rightarrow> authorize_failed e w2
           | None \<Rightarrow> (Inr (), w2\<lparr>saved := saved w2 @ [account w2]\<rparr>)))"
  by (simp add: authorize_def Let_def)

text \<open>
  C3 (as amended). \<^verbatim>\<open>authorize\<close> puts the encrypted password into the account data and
  then makes the test request to \<^verbatim>\<open>user\<close>. When it returns, the request has succeeded,
  the account data holds the encrypted password and the account has been saved once.
  When it raises, the account data holds no \<^verbatim>\<open>password\<close> entry, its other entries and
  the username are those before the call, and nothing has been saved; a password that the
  account data held before the call is not restored. When the test request raises a
  \<^verbatim>\<open>HostingServiceError\<close> with HTTP code 401 or 403, \<^verbatim>\<open>authorize\<close> raises an
  \<^verbatim>\<open>AuthorizationError\<close> in its place.
\<close>

theorem authorize_stores_or_deletes_password:
  fixes E :: "'a svc_env_scheme" and user password :: string and w :: world
  defines "w1 \<equiv> w\<lparr>account := (account w)\<lparr>data :=
                    AList.update ''password'' (encrypt_password E password) (data (account w))\<rparr>\<rparr>"
  defines "test \<equiv> fst (api_get E (build_api_url ''user'' ''1.0'') False w1)"
  defines "result \<equiv> fst (authorize E user password w)"
  defines "w' \<equiv> snd (authorize E user password w)"
  shows "(result = Inr () \<longrightarrow>
            (\<exists>rsp. test = Inr rsp) \<and>
            map_of (data (account w')) ''password'' = Some (encrypt_password E password) \<and>
            saved w' = saved w @ [account w']) \<and>
         (result \<noteq> Inr () \<longrightarrow>
            (\<exists>e. result = Inl e) \<and>
            map_of (data (account w')) ''password'' = None \<and>
            (\<forall>k. k \<noteq> ''password'' \<longrightarrow>
               map_of (data (account w')) k = map_of (data (account w)) k) \<and>
            username (account w') = username (account w) \<and>
            saved w' = saved w) \<and>
         (\<forall>m c. test = Inl (HostingServiceError m (Some c)) \<and> (c = 401 \<or> c = 403) \<longrightarrow>
            result = Inl (AuthorizationError auth_error_message)) \<and>
         (\<forall>rsp. test = Inr rsp \<and> save_raises E (account w1) = None \<longrightarrow> result = Inr ())"
proof -
  obtain r w2 where t: "api_get E (build_api_url ''user'' ''1.0'') False w1 = (r, w2)"
    by (cases "api_get E (build_api_url ''user'' ''1.0'') False w1") auto
  from api_get_world[OF t] have a2: "account w2 = account w1" and s2: "saved w2 = saved w1"
    by simp_all
  have d1: "map_of (data (account w1)) ''password'' = Some (encrypt_password E password)"
    by (simp add: w1_def update_conv')
  have s1: "saved w1 = saved w" and u1: "username (account w1) = username (account w)"
    by (simp_all add: w1_def)
  have del: "map_of (AList.delete ''password'' (data (account w1))) k =
               (if k = ''password'' then None else map_of (data (account w)) k)" for k
    by (simp add: w1_def delete_conv' update_conv')
  have test: "test = r" by (simp add: test_def t)
  have failed: "result \<noteq> Inr () \<and> (\<exists>e'. result = Inl e') \<and>
                map_of (data (account w')) ''password'' = None \<and>
                (\<forall>k. k \<noteq> ''password'' \<longrightarrow>
                   map_of (data (account w')) k = map_of (data (account w)) k) \<and>
                username (account w') = username (account w) \<and> saved w' = saved w"
    if "authorize E user password w = authorize_failed e w2" for e
  proof -
    obtain r' w3 where f: "authorize_failed e w2 = (r', w3)"
      by (cases "authorize_failed e w2") auto
    from authorize_failed_world[OF f] that f show ?thesis
      by (auto simp: result_def w'_def a2 s2 s1 u1 del)
  qed
  show ?thesis
  proof (cases r)
    case (Inl e)
    then have eq: "authorize E user password w = authorize_failed e w2"
      using t by (simp add: authorize_cases w1_def)
    from failed[OF eq] Inl test authorize_failed_auth[of _ _ w2] eq show ?thesis
      by (auto simp: result_def)
  next
    case (Inr rsp)
    show ?thesis
    proof (cases "save_raises E (account w2)")
      case None
      then have "authorize E user password w = (Inr (), w2\<lparr>saved := saved w2 @ [account w2]\<rparr>)"
        using t Inr by (simp add: authorize_cases w1_def)
      then show ?thesis using Inr test d1 by (simp add: result_def w'_def a2 s2 s1)
    next
      case (Some e)
      then have eq: "authorize E user password w = authorize_failed e w2"
        using t Inr by (simp add: authorize_cases w1_def)
      from failed[OF eq] Inr test Some a2 show ?thesis by auto
    qed
  qed
qed

theorem authorize_stores_or_deletes_password_witness:
  "fst (authorize ex_env ''alice'' ''secret'' ex_world) = Inr () \<and>
   map_of (data (account (snd (authorize ex_env ''alice'' ''secret'' ex_world)))) ''password'' =
     Some (encrypt_password ex_env ''secret'') \<and>
   saved (snd (authorize ex_env ''alice'' ''secret'' ex_world)) =
     saved ex_world @ [account (snd (authorize ex_env ''alice'' ''secret'' ex_world))] \<and>
   fst (authorize ex_env ''alice'' ''wrong'' ex_world) \<noteq> Inr () \<and>
   fst (api_get ex_env (build_api_url ''user'' ''1.0'') False
          (ex_world\<lparr>account := (account ex_world)\<lparr>data :=
             AList.update ''password'' (encrypt_password ex_env ''wrong'')
               (data (account ex_world))\<rparr>\<rparr>)) =
     Inl (HostingServiceError ''Forbidden'' (Some 403)) \<and>
   fst (authorize ex_env ''alice'' ''wrong'' ex_world) =
     Inl (AuthorizationError auth_error_message) \<and>
   map_of (data (account (snd (authorize ex_env ''alice'' ''wrong'' ex_world)))) ''password'' = None \<and>
   saved (snd (authorize ex_env ''alice'' ''wrong'' ex_world)) = saved ex_world"
proof -
  have 1: "fst (authorize ex_env ''alice'' ''secret'' ex_world) = Inr ()"
    by (simp add: authorize_def authorize_failed_def service_defs ex_service_defs Let_def)
  have 2: "fst (api_get ex_env (build_api_url ''user'' ''1.0'') False
          (ex_world\<lparr>account := (account ex_world)\<lparr>data :=
             AList.update ''password'' (encrypt_password ex_env ''wrong'')
               (data (account ex_world))\<rparr>\<rparr>)) =
     Inl (HostingServiceError ''Forbidden'' (Some 403))"
    by (simp add: service_defs ex_service_defs Let_def)
  have 3: "fst (authorize ex_env ''alice'' ''wrong'' ex_world) \<noteq> Inr ()"
    by (simp add: authorize_def authorize_failed_def service_defs ex_service_defs Let_def)
  from authorize_stores_or_deletes_password[of ex_env "''alice''" "''secret''" ex_world]
    authorize_stores_or_deletes_password[of ex_env "''alice''" "''wrong''" ex_world] 1 2 3
  show ?thesis by blast
qed

text \<open>
  C3 as stated fails in its last part, that the stored credentials are unchanged on error:
  an account that holds a password and is authorized again with a wrong one ends without
  any password in its data.
\<close>

theorem authorize_drops_previous_password_counterexample:
  "map_of (data (account ex_world)) ''password'' = Some ''enc:secret'' \<and>
   authorize ex_env ''alice'' ''wrong'' ex_world =
     (Inl (AuthorizationError auth_error_message),
      \<lparr>account = \<lparr>username = ''alice'', data = []\<rparr>, saved = [],
       requests = [''https://bitbucket.org/api/1.0/user'']\<rparr>)"
  by (simp add: authorize_def authorize_failed_def service_defs ex_service_defs Let_def)

subsection \<open>Commits and branches\<close>






lemma set_clearjunk_subset: "set (AList.clearjunk al) \<subseteq> set al"
  by (induction al rule: AList.clearjunk.induct) (auto simp: AList.delete_eq)

lemma branches_loop_ok:
  "list_all branch_item_ok items \<Longrightarrow>
   branches_loop d items branches = Inr (branches @ map (branch_of_item d) items)"
proof (induction items arbitrary: branches)
  case Nil
  then show ?case by simp
next
  case (Cons item items)
  obtain n b where item: "item = (n, b)" by (cases item)
  with Cons.prems obtain kvs v where "b = JObj kvs" "map_of kvs ''raw_node'' = Some v"
    by (cases b) auto
  with Cons item show ?case by (simp add: dict_get_def)
qed

text \<open>
  C6. \<^verbatim>\<open>get_branches\<close> returns one branch for each entry of the branches response (as many
  as it has keys): its id is the name of the entry, its commit the \<^verbatim>\<open>raw_node\<close> of the
  entry, and it is the default branch exactly when its name equals the \<^verbatim>\<open>name\<close> that
  the \<^verbatim>\<open>main-branch/\<close> endpoint returned.
\<close>

theorem get_branches_maps_entries:
  assumes "build_repository_api_url (account w) repo ''main-branch/'' ''1.0'' = Inr main_url"
    and "api_get E main_url False w = (Inr main_rsp, w1)"
    and "py_getitem main_rsp ''name'' = Inr default_branch_name"
    and "build_repository_api_url (account w1) repo ''branches/'' ''1.0'' = Inr url"
    and "api_get E url False w1 = (Inr (JObj kvs), w2)"
    and "list_all branch_item_ok kvs"
  shows "get_branches E repo w =
           (Inr (map (branch_of_item default_branch_name) (AList.clearjunk kvs)), w2) \<and>
         length (map (branch_of_item default_branch_name) (AList.clearjunk kvs)) =
           card (fst ` set kvs)"
proof -
  have d: "get_default_branch_name E repo w = (Inr default_branch_name, w1)"
    using assms(1-3) by (simp add: get_default_branch_name_def)
  from assms(6) set_clearjunk_subset[of kvs] have "list_all branch_item_ok (AList.clearjunk kvs)"
    by (auto simp: list_all_iff)
  then have "branches_loop default_branch_name (AList.clearjunk kvs) [] =
               Inr (map (branch_of_item default_branch_name) (AList.clearjunk kvs))"
    by (simp add: branches_loop_ok)
  then have 1: "get_branches E repo w =
           (Inr (map (branch_of_item default_branch_name) (AList.clearjunk kvs)), w2)"
    using d assms(4,5) by (simp add: get_branches_def)
  have "length (AList.clearjunk kvs) = length (map fst (AList.clearjunk kvs))" by simp
  also have "\<dots> = card (set (map fst (AList.clearjunk kvs)))"
    using distinct_clearjunk[of kvs] by (simp only: distinct_card)
  also have "\<dots> = card (fst ` set kvs)"
    by (simp only: clearjunk_keys_set) simp
  finally show ?thesis using 1 by simp
qed

theorem get_branches_maps_entries_witness:
  "build_repository_api_url (account ex_world) ex_repo ''main-branch/'' ''1.0'' = Inr ex_main_url \<and>
   api_get ex_env ex_main_url False ex_world =
     (Inr (JObj [(''name'', JStr ''master'')]), ex_fetched [ex_main_url]) \<and>
   py_getitem (JObj [(''name'', JStr ''master'')]) ''name'' = Inr (JStr ''master'') \<and>
   build_repository_api_url (account (ex_fetched [ex_main_url])) ex_repo ''branches/'' ''1.0'' =
     Inr ex_branches_url \<and>
   api_get ex_env ex_branches_url False (ex_fetched [ex_main_url]) =
     (Inr (JObj ex_branches), ex_fetched [ex_main_url, ex_branches_url]) \<and>
   list_all branch_item_ok ex_branches \<and>
   get_branches ex_env ex_repo ex_world =
     (Inr (map (branch_of_item (JStr ''master'')) (AList.clearjunk ex_branches)),
      ex_fetched [ex_main_url, ex_branches_url]) \<and>
   map (branch_of_item (JStr ''master'')) (AList.clearjunk ex_branches) =
     [\<lparr>branch_id = ''master'', branch_commit = JStr ''aa11'', branch_default = True\<rparr>,
      \<lparr>branch_id = ''stable'', branch_commit = JStr ''bb22'', branch_default = False\<rparr>]"
proof -
  have 1: "build_repository_api_url (account ex_world) ex_repo ''main-branch/'' ''1.0'' =
             Inr ex_main_url"
    by (simp add: service_defs ex_service_defs)
  have 2: "api_get ex_env ex_main_url False ex_world =
     (Inr (JObj [(''name'', JStr ''master'')]), ex_fetched [ex_main_url])"
    by (simp add: service_defs ex_env_def ex_world_def ex_account_def ex_http_get_def
        ex_api_loads_def ex_decrypt_def ex_main_url_def ex_fetched_def)
  have 3: "py_getitem (JObj [(''name'', JStr ''master'')]) ''name'' = Inr (JStr ''master'')"
    by simp
  have 4: "build_repository_api_url (account (ex_fetched [ex_main_url])) ex_repo ''branches/''
             ''1.0'' = Inr ex_branches_url"
    by (simp add: service_defs ex_service_defs)
  have 5: "api_get ex_env ex_branches_url False (ex_fetched [ex_main_url]) =
     (Inr (JObj ex_branches), ex_fetched [ex_main_url, ex_branches_url])"
    by (simp add: service_defs ex_env_def ex_account_def ex_http_get_def
        ex_api_loads_def ex_decrypt_def ex_main_url_def ex_branches_url_def ex_fetched_def)
  have 6: "list_all branch_item_ok ex_branches"
    by (simp add: ex_branches_def)
  have 7: "map (branch_of_item (JStr ''master'')) (AList.clearjunk ex_branches) =
     [\<lparr>branch_id = ''master'', branch_commit = JStr ''aa11'', branch_default = True\<rparr>,
      \<lparr>branch_id = ''stable'', branch_commit = JStr ''bb22'', branch_default = False\<rparr>]"
    by (simp add: ex_branches_def dict_get_def)
  from get_branches_maps_entries[OF 1 2 3 4 5 6] 1 2 3 4 5 6 7 show ?thesis by blast
qed




subsection \<open>The review request datagrid\<close>

text \<open>
  C8. \<^verbatim>\<open>load_extra_state\<close> adds the clause \<^verbatim>\<open>status='P'\<close> to the queryset exactly when the
  effective \<^verbatim>\<open>show_closed\<close> setting is false, always adds the clause for the local site of
  the grid after it, and returns \<^verbatim>\<open>True\<close> exactly when there is a profile whose
  \<^verbatim>\<open>show_closed\<close> differs from the effective setting, which it then stores in the profile.
\<close>

theorem load_extra_state_filters:
  "load_extra_state py_int prof g =
     (case prof of
        None \<Rightarrow> False
      | Some p \<Rightarrow> effective_show_closed py_int prof g \<noteq> profile_show_closed p,
      g\<lparr>show_closed := effective_show_closed py_int prof g,
        queryset := queryset g @
                    (if effective_show_closed py_int prof g then [] else [Status ''P'']) @
                    [LocalSite (local_site g)]\<rparr>,
      map_option (\<lambda>p. p\<lparr>profile_show_closed := effective_show_closed py_int prof g\<rparr>) prof)"
  by (auto simp: load_extra_state_def effective_show_closed_def Let_def split: option.splits)

theorem load_extra_state_filters_witness:
  "effective_show_closed ex_py_int (Some ex_profile) ex_grid = False \<and>
   load_extra_state ex_py_int (Some ex_profile) ex_grid =
     (True,
      \<lparr>show_closed = False, queryset = [Status ''P'', LocalSite (Some 3)], local_site = Some 3,
       GET = [(''show-closed'', ''0'')]\<rparr>,
      Some \<lparr>profile_show_closed = False\<rparr>)"
  using load_extra_state_filters[of ex_py_int "Some ex_profile" ex_grid]
  by (simp add: effective_show_closed_def ex_py_int_def ex_grid_def ex_profile_def)

end
